theory Spec2Isabelle
  imports Main
begin

section \<open>Terminal output of \<open>ui.py\<close>\<close>

text \<open>
  Every \<open>print(..., end="", flush=True)\<close> and \<open>sys.stdout.write\<close> of \<open>ui.py\<close> appends one
  item to the standard output. The items are kept apart instead of being flattened to
  bytes:
  \<^item> \<open>CUU n\<close>, \<open>CUD n\<close>, \<open>CUF n\<close>, \<open>CUB n\<close> are the sequences \<open>ESC [ n A\<close>, \<open>ESC [ n B\<close>,
    \<open>ESC [ n C\<close>, \<open>ESC [ n D\<close> of \<open>move_up\<close>, \<open>move_down\<close>, \<open>move_right\<close>, \<open>move_left\<close>;
  \<^item> \<open>HideCursor\<close> and \<open>ShowCursor\<close> are \<open>ESC [ ? 25 l\<close> and \<open>ESC [ ? 25 h\<close>;
  \<^item> \<open>Text s\<close> is the string \<open>s\<close> written as it is.
\<close>

datatype out = CUU int | CUD int | CUF int | CUB int | HideCursor | ShowCursor | Text string

type_synonym sys_stdout = "out list"

subsection \<open>class CursorTool\<close>

definition move_up :: "int \<Rightarrow> sys_stdout \<Rightarrow> sys_stdout" where
  "move_up n so = so @ [CUU n]"

definition move_down :: "int \<Rightarrow> sys_stdout \<Rightarrow> sys_stdout" where
  "move_down n so = so @ [CUD n]"

definition move_right :: "int \<Rightarrow> sys_stdout \<Rightarrow> sys_stdout" where
  "move_right n so = so @ [CUF n]"

definition move_left :: "int \<Rightarrow> sys_stdout \<Rightarrow> sys_stdout" where
  "move_left n so = so @ [CUB n]"

definition move_vertical :: "int \<Rightarrow> sys_stdout \<Rightarrow> sys_stdout" where
  "move_vertical n so =
     (if n > 0 then move_down n so
      else if n < 0 then move_up (- n) so
      else so)"

definition move_horizontal :: "int \<Rightarrow> sys_stdout \<Rightarrow> sys_stdout" where
  "move_horizontal n so =
     (if n > 0 then move_right n so
      else if n < 0 then move_left (- n) so
      else so)"

definition hide_cursor :: "sys_stdout \<Rightarrow> sys_stdout" where
  "hide_cursor so = so @ [HideCursor]"

definition show_cursor :: "sys_stdout \<Rightarrow> sys_stdout" where
  "show_cursor so = so @ [ShowCursor]"

subsection \<open>class UITool\<close>

text \<open>
  The errors the code can raise. \<open>AssertionError\<close> comes from the two \<open>assert\<close> statements
  (raised without a message), \<open>IndexError\<close> from indexing \<open>line_pos\<close> out of range (it
  carries Python's message), \<open>RuntimeError\<close> from \<open>contextlib\<close>. \<open>Exception m\<close> stands for
  any other error derived from \<open>Exception\<close> whose \<open>str\<close> is \<open>m\<close>, and \<open>BaseException m\<close> for
  an error that is not derived from \<open>Exception\<close> (\<open>KeyboardInterrupt\<close>, \<open>SystemExit\<close>).
\<close>

datatype error =
    AssertionError
  | IndexError string
  | RuntimeError string
  | Exception string
  | BaseException string

fun is_Exception :: "error \<Rightarrow> bool" where
  "is_Exception (BaseException m) = False"
| "is_Exception e = True"

fun str :: "error \<Rightarrow> string" where
  "str AssertionError = []"
| "str (IndexError m) = m"
| "str (RuntimeError m) = m"
| "str (Exception m) = m"
| "str (BaseException m) = m"

record UITool =
  max_lines :: int
  cur_line :: int
  cur_col :: int
  line_pos :: "int list"

text \<open>
  A method takes the object and the standard output and returns both. A method that can
  raise returns in front of them \<open>Some e\<close> when it raised \<open>e\<close>, with the object and the
  output as they were at the \<open>raise\<close>, and \<open>None\<close> when it returned.
\<close>

type_synonym world = "UITool \<times> sys_stdout"

definition move_cursor :: "int option \<Rightarrow> int option \<Rightarrow> world \<Rightarrow> world" where
  "move_cursor line col w =
     (let w1 = (case line of
                  None \<Rightarrow> w
                | Some l \<Rightarrow> ((fst w)\<lparr>cur_line := l\<rparr>, move_vertical (l - cur_line (fst w)) (snd w)))
      in (case col of
            None \<Rightarrow> w1
          | Some c \<Rightarrow> ((fst w1)\<lparr>cur_col := c\<rparr>, move_horizontal (c - cur_col (fst w1)) (snd w1))))"

definition reset_pos :: "world \<Rightarrow> world" where
  "reset_pos w = move_cursor (Some (max_lines (fst w))) (Some 0) w"

text \<open>
  \<open>__init__\<close>. The attribute \<open>line_pos\<close> is assigned last, after \<open>reset_pos()\<close>, which
  does not read it; until then the record holds the empty list. \<open>[0] * max_lines\<close> is
  the empty list when \<open>max_lines\<close> is negative, as \<open>replicate (nat max_lines)\<close> is.
\<close>

definition UITool_init :: "int \<Rightarrow> sys_stdout \<Rightarrow> world" where
  "UITool_init n so =
     (let w = reset_pos (\<lparr>max_lines = n, cur_line = 0, cur_col = 0, line_pos = []\<rparr>, so)
      in ((fst w)\<lparr>line_pos := replicate (nat n) 0\<rparr>, snd w))"

definition print_char :: "string \<Rightarrow> world \<Rightarrow> world" where
  "print_char char w = ((fst w)\<lparr>cur_col := cur_col (fst w) + 1\<rparr>, snd w @ [Text char])"

definition print_line :: "string \<Rightarrow> world \<Rightarrow> world" where
  "print_line content w =
     ((fst w)\<lparr>cur_col := cur_col (fst w) + int (length content)\<rparr>, snd w @ [Text content])"

text \<open>
  \<open>update_char\<close>. After the assertion \<open>line\<close> is not negative, so \<open>line_pos[line]\<close> raises
  IndexError exactly when \<open>line\<close> is not below the length of the list. In the second
  branch the list is read while the arguments of \<open>move_cursor\<close> are evaluated, before
  anything is written; the later store at the same index cannot fail.
\<close>

definition update_char :: "int \<Rightarrow> string \<Rightarrow> world \<Rightarrow> error option \<times> world" where
  "update_char line char w =
     (if \<not> (0 \<le> line \<and> line < max_lines (fst w)) then (Some AssertionError, w)
      else if char \<in> set [[CHR 0x0A], [CHR 0x0D]] then
        (if nat line < length (line_pos (fst w))
         then (None, reset_pos ((fst w)\<lparr>line_pos := (line_pos (fst w))[nat line := 0]\<rparr>, snd w))
         else (Some (IndexError ''list assignment index out of range''), w))
      else
        (if nat line < length (line_pos (fst w))
         then (let w1 = move_cursor (Some line) (Some (line_pos (fst w) ! nat line)) w;
                   w2 = print_char char w1;
                   w3 = ((fst w2)\<lparr>line_pos := (line_pos (fst w2))[nat line := cur_col (fst w2)]\<rparr>, snd w2)
               in (None, reset_pos w3))
         else (Some (IndexError ''list index out of range''), w)))"

definition update_line :: "int \<Rightarrow> string \<Rightarrow> world \<Rightarrow> error option \<times> world" where
  "update_line line content w =
     (if \<not> (CHR 0x0D \<notin> set content \<and> CHR 0x0A \<notin> set content) then (Some AssertionError, w)
      else (None, reset_pos (print_line content (move_cursor (Some line) (Some 0) w))))"

definition print_desc :: "string \<Rightarrow> world \<Rightarrow> error option \<times> world" where
  "print_desc desc w =
     update_line (max_lines (fst w)) (''====='' @ '' '' @ desc @ '' '' @ ''====='') w"

subsection \<open>The context manager \<open>UITool.ui_tool\<close>\<close>

text \<open>
  \<open>ui_tool max_lines desc body x so\<close> is the statement
  \<open>with UITool.ui_tool(max_lines, desc) as tool: body\<close>, run with the standard output
  \<open>so\<close>. The body works on the tool, on the output and on whatever else it owns (\<open>x\<close>);
  it returns \<open>None\<close> when it does not end. The generator is decorated with
  \<open>contextlib.contextmanager\<close>:
  \<^item> when the body ends normally the generator is resumed and runs its \<open>finally\<close> block;
  \<^item> when the body raises \<open>e\<close>, \<open>e\<close> is thrown into the generator at the \<open>yield\<close>. If
    \<open>except Exception\<close> catches it, \<open>print(e)\<close> and the \<open>finally\<close> block run, the
    generator ends, \<open>__exit__\<close> returns true and the \<open>with\<close> statement ends normally.
    Otherwise the \<open>finally\<close> block runs and \<open>e\<close> leaves the \<open>with\<close> statement;
  \<^item> when \<open>UITool(max_lines)\<close> or \<open>print_desc\<close> raises, the body is not run: a caught
    error ends the generator before its \<open>yield\<close> and \<open>__enter__\<close> raises RuntimeError.
\<close>

definition ui_tool_except :: "error \<Rightarrow> sys_stdout \<Rightarrow> sys_stdout" where
  "ui_tool_except e so = so @ [Text (str e @ [CHR 0x0A])]"

definition ui_tool_finally :: "sys_stdout \<Rightarrow> sys_stdout" where
  "ui_tool_finally so = show_cursor so @ [Text [CHR 0x0A]]"

definition ui_tool ::
  "int \<Rightarrow> string \<Rightarrow> ('x \<Rightarrow> world \<Rightarrow> (error option \<times> 'x \<times> world) option) \<Rightarrow>
   'x \<Rightarrow> sys_stdout \<Rightarrow> (error option \<times> 'x \<times> sys_stdout) option" where
  "ui_tool n desc body x so =
     (case print_desc desc (UITool_init n (hide_cursor so)) of
        (Some e, w) \<Rightarrow>
          (if is_Exception e
           then Some (Some (RuntimeError ''generator didn't yield''), x,
                      ui_tool_finally (ui_tool_except e (snd w)))
           else Some (Some e, x, ui_tool_finally (snd w)))
      | (None, w) \<Rightarrow>
          (case body x w of
             None \<Rightarrow> None
           | Some (None, x', w') \<Rightarrow> Some (None, x', ui_tool_finally (snd w'))
           | Some (Some e, x', w') \<Rightarrow>
               (if is_Exception e
                then Some (None, x', ui_tool_finally (ui_tool_except e (snd w')))
                else Some (Some e, x', ui_tool_finally (snd w')))))"

section \<open>The polling loop of \<open>sync.py\<close>\<close>

text \<open>
  \<open>subprocess.Popen\<close> is not code of this repository. A handle is modelled by what
  \<open>_ui_thread\<close> observes of it: \<open>stdout\<close> is \<open>None\<close> when the handle has no pipe and
  otherwise holds the characters the process has written that have not been read yet;
  \<open>life\<close> says what \<open>poll()\<close> answers. The pipe is read in text mode, as the annotation
  \<open>char: str\<close> of \<open>update_char\<close> asks.
  \<^item> \<open>Terminated rc\<close>: the process has exited, \<open>poll()\<close> returns \<open>rc\<close>;
  \<^item> \<open>TerminatesAtEOF rc\<close>: \<open>poll()\<close> returns \<open>None\<close> while output is unread and \<open>rc\<close>
    once all of it has been read (the process writes its output and then exits);
  \<^item> \<open>Running\<close>: \<open>poll()\<close> returns \<open>None\<close> for ever.
\<close>

datatype liveness = Terminated int | TerminatesAtEOF int | Running

record proc =
  stdout :: "string option"
  life :: liveness

definition poll :: "proc \<Rightarrow> int option" where
  "poll p =
     (case life p of
        Terminated rc \<Rightarrow> Some rc
      | TerminatesAtEOF rc \<Rightarrow>
          (if (case stdout p of None \<Rightarrow> True | Some buf \<Rightarrow> buf = []) then Some rc else None)
      | Running \<Rightarrow> None)"

text \<open>\<open>read(1)\<close>: the next character, or the empty string when there is none.\<close>

definition read1 :: "string \<Rightarrow> string \<times> string" where
  "read1 buf = (take 1 buf, drop 1 buf)"

text \<open>
  The \<open>for i, p in enumerate(rsync_procs)\<close> statement, from index \<open>i\<close> on. It returns the
  handles as the reads left them.
\<close>

fun ui_thread_for :: "nat \<Rightarrow> proc list \<Rightarrow> world \<Rightarrow> error option \<times> proc list \<times> world" where
  "ui_thread_for i [] w = (None, [], w)"
| "ui_thread_for i (p # ps) w =
     (case stdout p of
        None \<Rightarrow>
          (case ui_thread_for (Suc i) ps w of (r, ps', w') \<Rightarrow> (r, p # ps', w'))
      | Some buf \<Rightarrow>
          (let char = fst (read1 buf); p' = p\<lparr>stdout := Some (snd (read1 buf))\<rparr>
           in if char \<noteq> [] then
                (case update_char (int i) char w of
                   (Some e, w') \<Rightarrow> (Some e, p' # ps, w')
                 | (None, w') \<Rightarrow>
                     (case ui_thread_for (Suc i) ps w' of (r, ps', w'') \<Rightarrow> (r, p' # ps', w'')))
              else
                (case ui_thread_for (Suc i) ps w of (r, ps', w') \<Rightarrow> (r, p' # ps', w'))))"

text \<open>
  The \<open>while not all(p.poll() is not None for p in rsync_procs)\<close> statement. \<open>all\<close>
  stops at the first handle that answers \<open>None\<close>; \<open>poll\<close> changes no handle here, so
  asking the others makes no difference. The statement does not end when a handle keeps
  answering \<open>None\<close>, which is the value \<open>None\<close> here.
\<close>

partial_function (option) ui_thread_while ::
  "proc list \<Rightarrow> world \<Rightarrow> (error option \<times> proc list \<times> world) option" where
  "ui_thread_while ps w =
     (if list_all (\<lambda>p. poll p \<noteq> None) ps then Some (None, ps, w)
      else (case ui_thread_for 0 ps w of
              (Some e, ps', w') \<Rightarrow> Some (Some e, ps', w')
            | (None, ps', w') \<Rightarrow> ui_thread_while ps' w'))"

declare ui_thread_while.simps [code]

definition ui_thread :: "proc list \<Rightarrow> sys_stdout \<Rightarrow> (error option \<times> proc list \<times> sys_stdout) option" where
  "ui_thread rsync_procs so =
     ui_tool (int (length rsync_procs)) ''TinyUI'' ui_thread_while rsync_procs so"

section \<open>The terminal\<close>

text \<open>
  What the standard output shows. The terminal is an unbounded grid of cells addressed
  by row and column, counted from the place of the cursor when the output starts; it
  neither wraps nor scrolls. A cursor movement with parameter \<open>0\<close> moves by one, as the
  ANSI sequences do. A line feed goes to the start of the next row, a carriage return to
  the start of the row, and every other character fills the cell under the cursor and
  moves the cursor one column to the right.
\<close>

record screen =
  row :: int
  col :: int
  cells :: "int \<times> int \<Rightarrow> char option"
  cursor_shown :: bool

definition put_char :: "char \<Rightarrow> screen \<Rightarrow> screen" where
  "put_char c t =
     (if c = CHR 0x0A then t\<lparr>row := row t + 1, col := 0\<rparr>
      else if c = CHR 0x0D then t\<lparr>col := 0\<rparr>
      else t\<lparr>cells := (cells t)((row t, col t) \<mapsto> c), col := col t + 1\<rparr>)"

fun exec :: "out \<Rightarrow> screen \<Rightarrow> screen" where
  "exec (CUU n) t = t\<lparr>row := row t - max 1 n\<rparr>"
| "exec (CUD n) t = t\<lparr>row := row t + max 1 n\<rparr>"
| "exec (CUF n) t = t\<lparr>col := col t + max 1 n\<rparr>"
| "exec (CUB n) t = t\<lparr>col := col t - max 1 n\<rparr>"
| "exec HideCursor t = t\<lparr>cursor_shown := False\<rparr>"
| "exec ShowCursor t = t\<lparr>cursor_shown := True\<rparr>"
| "exec (Text s) t = fold put_char s t"

definition blank :: screen where
  "blank = \<lparr>row = 0, col = 0, cells = (\<lambda>_. None), cursor_shown = True\<rparr>"

definition render :: "sys_stdout \<Rightarrow> screen" where
  "render so = fold exec so blank"

text \<open>The first \<open>n\<close> cells of row \<open>r\<close>.\<close>

definition shown :: "screen \<Rightarrow> int \<Rightarrow> nat \<Rightarrow> char option list" where
  "shown t r n = map (\<lambda>k. cells t (r, int k)) [0..<n]"

text \<open>
  A caller that makes the calls \<open>update_char(line, char)\<close> of a list one after the other;
  the first call that raises ends the run.
\<close>

fun update_chars :: "(int \<times> string) list \<Rightarrow> world \<Rightarrow> error option \<times> world" where
  "update_chars [] w = (None, w)"
| "update_chars ((line, char) # cs) w =
     (case update_char line char w of
        (Some e, w') \<Rightarrow> (Some e, w')
      | (None, w') \<Rightarrow> update_chars cs w')"

text \<open>
  Bodies for the \<open>with\<close> statement: \<open>pass\<close>, and \<open>raise e\<close>. Handles for the loop: a
  process that writes \<open>bs\<close> and then exits, and a process that has exited with \<open>bs\<close>
  still unread in its pipe.
\<close>

definition body_pass :: "'x \<Rightarrow> world \<Rightarrow> (error option \<times> 'x \<times> world) option" where
  "body_pass x w = Some (None, x, w)"

definition body_raise :: "error \<Rightarrow> 'x \<Rightarrow> world \<Rightarrow> (error option \<times> 'x \<times> world) option" where
  "body_raise e x w = Some (Some e, x, w)"

definition emits :: "string \<Rightarrow> proc" where
  "emits bs = \<lparr>stdout = Some bs, life = TerminatesAtEOF 0\<rparr>"

definition exited_leaving :: "string \<Rightarrow> proc" where
  "exited_leaving bs = \<lparr>stdout = Some bs, life = Terminated 0\<rparr>"

section \<open>Properties\<close>

lemmas cursor_defs = move_cursor_def reset_pos_def move_vertical_def move_horizontal_def
  move_up_def move_down_def move_left_def move_right_def

lemmas canvas_defs = UITool_init_def update_char_def update_line_def print_desc_def
  print_char_def print_line_def cursor_defs

lemma render_append: "render (so @ es) = fold exec es (render so)"
  by (simp add: render_def)

subsection \<open>The cursor rests on the footer line\<close>

text \<open>
  Claim C1. The constructor leaves the tracked cursor \<open>(cur_line, cur_col)\<close> at
  \<open>(max_lines, 0)\<close>, and so does every call of \<open>update_char\<close> and of \<open>update_line\<close>
  that returns, from whatever state it starts; none of them changes \<open>max_lines\<close>.
\<close>

theorem cursor_rests_at_footer:
  "cur_line (fst (UITool_init n so)) = n \<and> cur_col (fst (UITool_init n so)) = 0 \<and>
   max_lines (fst (UITool_init n so)) = n \<and>
   (fst (update_char line char w) = None \<longrightarrow>
      cur_line (fst (snd (update_char line char w))) = max_lines (fst w) \<and>
      cur_col (fst (snd (update_char line char w))) = 0 \<and>
      max_lines (fst (snd (update_char line char w))) = max_lines (fst w)) \<and>
   (fst (update_line line' content w') = None \<longrightarrow>
      cur_line (fst (snd (update_line line' content w'))) = max_lines (fst w') \<and>
      cur_col (fst (snd (update_line line' content w'))) = 0 \<and>
      max_lines (fst (snd (update_line line' content w'))) = max_lines (fst w'))"
  by (simp add: canvas_defs Let_def)

theorem cursor_rests_at_footer_witness:
  "cur_line (fst (UITool_init 3 [])) = 3 \<and> cur_col (fst (UITool_init 3 [])) = 0 \<and>
   max_lines (fst (UITool_init 3 [])) = 3 \<and>
   fst (update_char 1 ''a'' (UITool_init 3 [])) = None \<and>
   cur_line (fst (snd (update_char 1 ''a'' (UITool_init 3 [])))) = 3 \<and>
   cur_col (fst (snd (update_char 1 ''a'' (UITool_init 3 [])))) = 0 \<and>
   fst (update_line 2 ''done'' (UITool_init 3 [])) = None \<and>
   cur_line (fst (snd (update_line 2 ''done'' (UITool_init 3 [])))) = 3 \<and>
   cur_col (fst (snd (update_line 2 ''done'' (UITool_init 3 [])))) = 0"
proof -
  have a: "fst (update_char 1 ''a'' (UITool_init 3 [])) = None"
    by (simp add: canvas_defs Let_def)
  have b: "fst (update_line 2 ''done'' (UITool_init 3 [])) = None"
    by (simp add: canvas_defs Let_def)
  show ?thesis
    using a b
      cursor_rests_at_footer [of 3 "[]" 1 "''a''" "UITool_init 3 []" 2 "''done''" "UITool_init 3 []"]
    by simp
qed

subsection \<open>A canvas without lines\<close>

text \<open>
  Claim C10. \<open>UITool(0)\<close> is accepted: the constructor returns an object with an empty
  \<open>line_pos\<close> and the cursor at \<open>(0, 0)\<close> and writes nothing, since \<open>move_vertical(0)\<close>
  and \<open>move_horizontal(0)\<close> write nothing; every \<open>update_char\<close> on it raises
  AssertionError and leaves the object and the output as they were.
\<close>

theorem zero_lines_accepted:
  "UITool_init 0 so = (\<lparr>max_lines = 0, cur_line = 0, cur_col = 0, line_pos = []\<rparr>, so) \<and>
   move_vertical 0 so = so \<and> move_horizontal 0 so = so \<and>
   update_char line char (UITool_init 0 so) = (Some AssertionError, UITool_init 0 so)"
  by (simp add: canvas_defs Let_def)

theorem zero_lines_accepted_witness:
  "UITool_init 0 [] = (\<lparr>max_lines = 0, cur_line = 0, cur_col = 0, line_pos = []\<rparr>, []) \<and>
   move_vertical 0 [] = [] \<and> move_horizontal 0 [] = [] \<and>
   update_char 0 ''a'' (UITool_init 0 []) = (Some AssertionError, UITool_init 0 [])"
  by (rule zero_lines_accepted)

subsection \<open>Usage errors\<close>

text \<open>
  Claim C7 says that \<open>print_line\<close> or \<open>update_line\<close> with a line feed or a carriage
  return in the content, and \<open>update_char\<close> or \<open>update_line\<close> with a line index outside
  \<open>[0, max_lines)\<close>, fail before anything is written. Two of the four cases do not
  fail: \<open>update_line\<close> has no assertion on its line index (\<open>print_desc\<close> writes the
  footer through it at index \<open>max_lines\<close>), and \<open>print_line\<close> has no assertion at all
  (its caller \<open>update_line\<close> has checked the content). Here both return, and write.
\<close>

theorem unchecked_calls_counterexample:
  "update_line 2 ''x'' (UITool_init 2 []) =
     (None, \<lparr>max_lines = 2, cur_line = 2, cur_col = 0, line_pos = [0, 0]\<rparr>,
      [CUD 2, Text ''x'', CUB 1]) \<and>
   print_line [CHR ''a'', CHR 0x0A, CHR ''b''] (UITool_init 2 []) =
     (\<lparr>max_lines = 2, cur_line = 2, cur_col = 3, line_pos = [0, 0]\<rparr>,
      [CUD 2, Text [CHR ''a'', CHR 0x0A, CHR ''b'']])"
  by (simp add: canvas_defs Let_def eval_nat_numeral)

text \<open>
  Claim C7, amended. \<open>update_line\<close> with a line feed or a carriage return in the content,
  and \<open>update_char\<close> with a line index outside \<open>[0, max_lines)\<close>, raise AssertionError
  with the object and the output unchanged.
\<close>

theorem usage_errors_raise_first:
  "((CHR 0x0A \<in> set content \<or> CHR 0x0D \<in> set content) \<longrightarrow>
      update_line line content w = (Some AssertionError, w)) \<and>
   ((line' < 0 \<or> max_lines (fst w') \<le> line') \<longrightarrow>
      update_char line' char w' = (Some AssertionError, w'))"
  by (auto simp add: update_line_def update_char_def)

theorem usage_errors_raise_first_witness:
  "CHR 0x0A \<in> set [CHR ''a'', CHR 0x0A, CHR ''b''] \<and>
   update_line 0 [CHR ''a'', CHR 0x0A, CHR ''b''] (UITool_init 2 []) =
     (Some AssertionError, UITool_init 2 []) \<and>
   max_lines (fst (UITool_init 2 [])) \<le> 2 \<and>
   update_char 2 ''a'' (UITool_init 2 []) = (Some AssertionError, UITool_init 2 [])"
proof -
  have a: "CHR 0x0A \<in> set [CHR ''a'', CHR 0x0A, CHR ''b'']" by simp
  have b: "max_lines (fst (UITool_init 2 [])) \<le> 2" by (simp add: canvas_defs Let_def)
  show ?thesis
    using a b usage_errors_raise_first
      [of "[CHR ''a'', CHR 0x0A, CHR ''b'']" 0 "UITool_init 2 []" 2 "UITool_init 2 []" "''a''"]
    by simp
qed

subsection \<open>One step of \<open>update_char\<close>\<close>

text \<open>
  The lemmas below hold for a canvas as the constructor makes it (\<open>line_pos\<close> has
  \<open>max_lines\<close> entries) on a terminal whose cursor is where the object believes it is.
\<close>

lemma update_char_frame:
  "i \<noteq> j \<Longrightarrow> 0 \<le> j \<Longrightarrow>
   line_pos (fst (snd (update_char i char w))) ! nat j = line_pos (fst w) ! nat j"
  by (auto simp add: canvas_defs Let_def)

lemma update_char_length:
  "length (line_pos (fst (snd (update_char i char w)))) = length (line_pos (fst w))"
  by (auto simp add: canvas_defs Let_def)

lemma update_char_max_lines:
  "max_lines (fst (snd (update_char i char w))) = max_lines (fst w)"
  by (auto simp add: canvas_defs Let_def)

lemma update_char_returns:
  "0 \<le> i \<Longrightarrow> i < max_lines (fst w) \<Longrightarrow> length (line_pos (fst w)) = nat (max_lines (fst w)) \<Longrightarrow>
   fst (update_char i char w) = None"
  by (auto simp add: canvas_defs Let_def)

lemma update_char_own_line:
  "0 \<le> i \<Longrightarrow> i < max_lines (fst w) \<Longrightarrow> length (line_pos (fst w)) = nat (max_lines (fst w)) \<Longrightarrow>
   line_pos (fst (snd (update_char i char w))) ! nat i =
     (if char \<in> set [[CHR 0x0A], [CHR 0x0D]] then 0 else line_pos (fst w) ! nat i + 1)"
  by (auto simp add: canvas_defs Let_def)

lemma update_chars_independent:
  "length (line_pos (fst w)) = nat (max_lines (fst w)) \<Longrightarrow>
   length (line_pos (fst w')) = nat (max_lines (fst w')) \<Longrightarrow>
   max_lines (fst w') = max_lines (fst w) \<Longrightarrow>
   line_pos (fst w) ! nat j = line_pos (fst w') ! nat j \<Longrightarrow>
   0 \<le> j \<Longrightarrow>
   list_all (\<lambda>c. 0 \<le> fst c \<and> fst c < max_lines (fst w)) calls \<Longrightarrow>
   fst (update_chars calls w) = None \<and>
   fst (update_chars (filter (\<lambda>c. fst c = j) calls) w') = None \<and>
   line_pos (fst (snd (update_chars calls w))) ! nat j =
   line_pos (fst (snd (update_chars (filter (\<lambda>c. fst c = j) calls) w'))) ! nat j"
proof (induction calls arbitrary: w w')
  case Nil
  then show ?case by simp
next
  case (Cons c calls)
  obtain i char where c: "c = (i, char)" by (cases c)
  obtain r w1 where s1: "update_char i char w = (r, w1)" by (cases "update_char i char w")
  from Cons.prems c have rng: "0 \<le> i" "i < max_lines (fst w)" by simp_all
  have r: "r = None" using update_char_returns [OF rng Cons.prems(1), of char] s1 by simp
  have m1: "max_lines (fst w1) = max_lines (fst w)" using update_char_max_lines [of i char w] s1 by simp
  have l1: "length (line_pos (fst w1)) = nat (max_lines (fst w1))"
    using update_char_length [of i char w] s1 m1 Cons.prems(1) by simp
  have all1: "list_all (\<lambda>c. 0 \<le> fst c \<and> fst c < max_lines (fst w1)) calls"
    using Cons.prems(6) m1 by simp
  show ?case
  proof (cases "i = j")
    case True
    obtain r' w1' where s1': "update_char i char w' = (r', w1')" by (cases "update_char i char w'")
    have rng': "0 \<le> i" "i < max_lines (fst w')" using rng Cons.prems(3) by simp_all
    have r': "r' = None" using update_char_returns [OF rng' Cons.prems(2), of char] s1' by simp
    have m1': "max_lines (fst w1') = max_lines (fst w1)"
      using update_char_max_lines [of i char w'] s1' m1 Cons.prems(3) by simp
    have l1': "length (line_pos (fst w1')) = nat (max_lines (fst w1'))"
      using update_char_length [of i char w'] s1' m1' m1 Cons.prems(2,3) by simp
    have eq: "line_pos (fst w1) ! nat j = line_pos (fst w1') ! nat j"
      using update_char_own_line [OF rng Cons.prems(1), of char]
        update_char_own_line [OF rng' Cons.prems(2), of char] s1 s1' True Cons.prems(4)
      by simp
    from Cons.IH [OF l1 l1' m1' eq Cons.prems(5) all1] show ?thesis
      using c s1 s1' r r' True by simp
  next
    case False
    have eq: "line_pos (fst w1) ! nat j = line_pos (fst w') ! nat j"
      using update_char_frame [OF False Cons.prems(5), of char w] s1 Cons.prems(4) by simp
    have m1': "max_lines (fst w') = max_lines (fst w1)" using m1 Cons.prems(3) by simp
    from Cons.IH [OF l1 Cons.prems(2) m1' eq Cons.prems(5) all1] show ?thesis
      using c s1 r False by simp
  qed
qed

lemma step_printable:
  assumes "0 \<le> i" "i < max_lines u" "length (line_pos u) = nat (max_lines u)"
    "row (render so) = cur_line u" "col (render so) = cur_col u"
    "c \<noteq> CHR 0x0A" "c \<noteq> CHR 0x0D"
  shows "fst (update_char i [c] (u, so)) = None"
    "fst (snd (update_char i [c] (u, so))) =
       u\<lparr>cur_line := max_lines u, cur_col := 0,
         line_pos := (line_pos u)[nat i := line_pos u ! nat i + 1]\<rparr>"
    "row (render (snd (snd (update_char i [c] (u, so))))) = max_lines u"
    "col (render (snd (snd (update_char i [c] (u, so))))) = 0"
    "cells (render (snd (snd (update_char i [c] (u, so))))) = (cells (render so))((i, line_pos u ! nat i) \<mapsto> c)"
  using assms
  by (simp_all add: canvas_defs Let_def render_append put_char_def)

lemma step_newline:
  assumes "0 \<le> i" "i < max_lines u" "length (line_pos u) = nat (max_lines u)"
    "row (render so) = cur_line u" "col (render so) = cur_col u"
    "char = [CHR 0x0A] \<or> char = [CHR 0x0D]"
  shows "fst (update_char i char (u, so)) = None"
    "fst (snd (update_char i char (u, so))) =
       u\<lparr>cur_line := max_lines u, cur_col := 0, line_pos := (line_pos u)[nat i := 0]\<rparr>"
    "row (render (snd (snd (update_char i char (u, so))))) = max_lines u"
    "col (render (snd (snd (update_char i char (u, so))))) = 0"
    "cells (render (snd (snd (update_char i char (u, so))))) = cells (render so)"
    "\<exists>es. snd (snd (update_char i char (u, so))) = so @ es \<and> (\<forall>s. Text s \<notin> set es)"
  using assms
  by (auto simp add: canvas_defs Let_def render_append)

lemma update_chars_one_line:
  assumes "0 \<le> i" "i < max_lines u" "length (line_pos u) = nat (max_lines u)"
    "row (render so) = cur_line u" "col (render so) = cur_col u"
    "CHR 0x0A \<notin> set cs" "CHR 0x0D \<notin> set cs"
  shows "\<exists>u' so'. update_chars (map (\<lambda>c. (i, [c])) cs) (u, so) = (None, u', so') \<and>
      max_lines u' = max_lines u \<and> length (line_pos u') = length (line_pos u) \<and>
      line_pos u' ! nat i = line_pos u ! nat i + int (length cs) \<and>
      (\<forall>k < length cs. cells (render so') (i, line_pos u ! nat i + int k) = Some (cs ! k)) \<and>
      (\<forall>r c. r \<noteq> i \<or> c < line_pos u ! nat i \<or> line_pos u ! nat i + int (length cs) \<le> c \<longrightarrow>
         cells (render so') (r, c) = cells (render so) (r, c))"
  using assms
proof (induction cs arbitrary: u so)
  case Nil
  then show ?case by simp
next
  case (Cons c cs)
  let ?lp = "line_pos u ! nat i"
  obtain r u1 so1 where s: "update_char i [c] (u, so) = (r, u1, so1)"
    by (cases "update_char i [c] (u, so)") auto
  have nl: "c \<noteq> CHR 0x0A" "c \<noteq> CHR 0x0D" using Cons.prems(6,7) by auto
  note st = step_printable [OF Cons.prems(1-5) nl]
  have r: "r = None" using st(1) s by simp
  have u1: "u1 = u\<lparr>cur_line := max_lines u, cur_col := 0,
         line_pos := (line_pos u)[nat i := ?lp + 1]\<rparr>" using st(2) s by simp
  have row1: "row (render so1) = cur_line u1" using st(3) s u1 by simp
  have col1: "col (render so1) = cur_col u1" using st(4) s u1 by simp
  have cells1: "cells (render so1) = (cells (render so))((i, ?lp) \<mapsto> c)" using st(5) s by simp
  have m1: "max_lines u1 = max_lines u" using u1 by simp
  have len1: "length (line_pos u1) = length (line_pos u)" using u1 by simp
  have lp1: "line_pos u1 ! nat i = ?lp + 1" using u1 Cons.prems(1-3) by simp
  have p1: "i < max_lines u1" using m1 Cons.prems(2) by simp
  have p2: "length (line_pos u1) = nat (max_lines u1)" using len1 m1 Cons.prems(3) by simp
  have p6: "CHR 0x0A \<notin> set cs" "CHR 0x0D \<notin> set cs" using Cons.prems(6,7) by auto
  from Cons.IH [OF Cons.prems(1) p1 p2 row1 col1 p6]
  obtain u' so' where
    run: "update_chars (map (\<lambda>c. (i, [c])) cs) (u1, so1) = (None, u', so')" and
    m': "max_lines u' = max_lines u1" and len': "length (line_pos u') = length (line_pos u1)" and
    lp': "line_pos u' ! nat i = line_pos u1 ! nat i + int (length cs)" and
    new: "\<forall>k < length cs. cells (render so') (i, line_pos u1 ! nat i + int k) = Some (cs ! k)" and
    old: "\<forall>r c. r \<noteq> i \<or> c < line_pos u1 ! nat i \<or> line_pos u1 ! nat i + int (length cs) \<le> c \<longrightarrow>
         cells (render so') (r, c) = cells (render so1) (r, c)"
    by blast
  have run': "update_chars (map (\<lambda>c. (i, [c])) (c # cs)) (u, so) = (None, u', so')"
    using s r run by simp
  have new': "\<forall>k < length (c # cs). cells (render so') (i, ?lp + int k) = Some ((c # cs) ! k)"
  proof (intro allI impI)
    fix k assume k: "k < length (c # cs)"
    show "cells (render so') (i, ?lp + int k) = Some ((c # cs) ! k)"
    proof (cases k)
      case 0
      have "cells (render so') (i, ?lp) = cells (render so1) (i, ?lp)"
        using old lp1 by simp
      then show ?thesis using 0 cells1 by simp
    next
      case (Suc k')
      then have "k' < length cs" using k by simp
      then have "cells (render so') (i, ?lp + 1 + int k') = Some (cs ! k')"
        using new lp1 by simp
      then show ?thesis using Suc by (simp add: add.assoc)
    qed
  qed
  have old': "\<forall>r col. r \<noteq> i \<or> col < ?lp \<or> ?lp + int (length (c # cs)) \<le> col \<longrightarrow>
         cells (render so') (r, col) = cells (render so) (r, col)"
  proof (intro allI impI)
    fix r col assume h: "r \<noteq> i \<or> col < ?lp \<or> ?lp + int (length (c # cs)) \<le> col"
    then have "r \<noteq> i \<or> col < line_pos u1 ! nat i \<or> line_pos u1 ! nat i + int (length cs) \<le> col"
      using lp1 by auto
    then have "cells (render so') (r, col) = cells (render so1) (r, col)" using old by blast
    moreover have "(r, col) \<noteq> (i, ?lp)" using h by auto
    ultimately show "cells (render so') (r, col) = cells (render so) (r, col)"
      using cells1 by auto
  qed
  have lp'': "line_pos u' ! nat i = ?lp + int (length (c # cs))" using lp' lp1 by simp
  have m'': "max_lines u' = max_lines u" using m' m1 by simp
  have len'': "length (line_pos u') = length (line_pos u)" using len' len1 by simp
  from run' m'' len'' lp'' new' old' show ?case by blast
qed

lemma init_facts:
  "max_lines (fst (UITool_init n so)) = n"
  "cur_line (fst (UITool_init n so)) = n"
  "cur_col (fst (UITool_init n so)) = 0"
  "line_pos (fst (UITool_init n so)) = replicate (nat n) 0"
  "0 \<le> n \<Longrightarrow> row (render (snd (UITool_init n []))) = n"
  "col (render (snd (UITool_init n []))) = 0"
  "cells (render (snd (UITool_init n []))) = (\<lambda>_. None)"
  by (simp_all add: canvas_defs Let_def render_def blank_def)

subsection \<open>Lines do not disturb each other\<close>

text \<open>
  Claim C9. On a canvas with \<open>max_lines\<close> entries in \<open>line_pos\<close> and for a line \<open>j\<close> in
  \<open>[0, max_lines)\<close>: \<open>update_char\<close> on another line \<open>i\<close> returns and leaves \<open>line_pos[j]\<close>
  as it was; and after any list of \<open>update_char\<close> calls on lines in \<open>[0, max_lines)\<close>,
  \<open>line_pos[j]\<close> is what the calls on line \<open>j\<close> alone make it, both runs returning.
\<close>

theorem lines_are_independent:
  assumes "length (line_pos (fst w)) = nat (max_lines (fst w))"
    and "0 \<le> j" and "j < max_lines (fst w)"
  shows "(0 \<le> i \<and> i < max_lines (fst w) \<and> i \<noteq> j \<longrightarrow>
           fst (update_char i char w) = None \<and>
           line_pos (fst (snd (update_char i char w))) ! nat j = line_pos (fst w) ! nat j) \<and>
         (list_all (\<lambda>c. 0 \<le> fst c \<and> fst c < max_lines (fst w)) calls \<longrightarrow>
           fst (update_chars calls w) = None \<and>
           fst (update_chars (filter (\<lambda>c. fst c = j) calls) w) = None \<and>
           line_pos (fst (snd (update_chars calls w))) ! nat j =
           line_pos (fst (snd (update_chars (filter (\<lambda>c. fst c = j) calls) w))) ! nat j)"
  using assms update_char_frame [of i j char w] update_char_returns [of i w char]
    update_chars_independent [of w w j calls]
  by auto

theorem lines_are_independent_witness:
  "fst (update_char 0 ''a'' (UITool_init 3 [])) = None \<and>
   line_pos (fst (snd (update_char 0 ''a'' (UITool_init 3 [])))) ! nat 1 =
     line_pos (fst (UITool_init 3 [])) ! nat 1 \<and>
   fst (update_chars [(0, ''a''), (1, ''x''), (0, ''b'')] (UITool_init 3 [])) = None \<and>
   line_pos (fst (snd (update_chars [(0, ''a''), (1, ''x''), (0, ''b'')] (UITool_init 3 [])))) ! nat 0 =
   line_pos (fst (snd (update_chars (filter (\<lambda>c. fst c = 0) [(0, ''a''), (1, ''x''), (0, ''b'')])
      (UITool_init 3 [])))) ! nat 0"
proof -
  have a: "length (line_pos (fst (UITool_init 3 []))) = nat (max_lines (fst (UITool_init 3 [])))"
    by (simp add: init_facts)
  have b: "(1::int) < max_lines (fst (UITool_init 3 []))" "(0::int) < max_lines (fst (UITool_init 3 []))"
    by (simp_all add: init_facts)
  have c: "list_all (\<lambda>c. 0 \<le> fst c \<and> fst c < max_lines (fst (UITool_init 3 [])))
     [(0, ''a''), (1, ''x''), (0, ''b'')]"
    by (simp add: init_facts)
  show ?thesis
    using lines_are_independent [OF a _ b(1), of 0 "''a''" "[]"]
      lines_are_independent [OF a _ b(2), of 0 "''a''" "[(0, ''a''), (1, ''x''), (0, ''b'')]"] b c
    by simp
qed

subsection \<open>Line feed and carriage return\<close>

text \<open>
  Claim C5. On such a canvas and terminal, for a line \<open>i\<close> in \<open>[0, max_lines)\<close>:
  \<open>update_char(i, ch)\<close> with \<open>ch\<close> a line feed or a carriage return returns, sets
  \<open>line_pos[i]\<close> to \<open>0\<close>, writes no text (only cursor movements) and leaves every cell
  of the terminal as it was; a following \<open>update_char(i, c)\<close> with \<open>c\<close> neither of the
  two returns and changes exactly the cell at row \<open>i\<close>, column \<open>0\<close>, to \<open>c\<close>.
\<close>

theorem newline_resets_column:
  assumes "0 \<le> i" and "i < max_lines u" and "length (line_pos u) = nat (max_lines u)"
    and "row (render so) = cur_line u" and "col (render so) = cur_col u"
    and "char = [CHR 0x0A] \<or> char = [CHR 0x0D]"
    and "c \<noteq> CHR 0x0A" and "c \<noteq> CHR 0x0D"
    and "update_char i char (u, so) = (r1, u1, so1)"
    and "update_char i [c] (u1, so1) = (r2, u2, so2)"
  shows "r1 = None \<and> line_pos u1 ! nat i = 0 \<and>
         (\<exists>es. so1 = so @ es \<and> (\<forall>s. Text s \<notin> set es)) \<and>
         cells (render so1) = cells (render so) \<and>
         r2 = None \<and> cells (render so2) = (cells (render so1))((i, 0) \<mapsto> c) \<and>
         line_pos u2 ! nat i = 1"
proof -
  note n = step_newline [OF assms(1-6)]
  have r1: "r1 = None" using n(1) assms(9) by simp
  have u1: "u1 = u\<lparr>cur_line := max_lines u, cur_col := 0, line_pos := (line_pos u)[nat i := 0]\<rparr>"
    using n(2) assms(9) by simp
  have lp1: "line_pos u1 ! nat i = 0" using u1 assms(1-3) by simp
  have tx: "\<exists>es. so1 = so @ es \<and> (\<forall>s. Text s \<notin> set es)" using n(6) assms(9) by simp
  have cells1: "cells (render so1) = cells (render so)" using n(5) assms(9) by simp
  have p: "i < max_lines u1" "length (line_pos u1) = nat (max_lines u1)"
    "row (render so1) = cur_line u1" "col (render so1) = cur_col u1"
    using u1 assms(2,3,9) n(3,4) by simp_all
  note st = step_printable [OF assms(1) p assms(7,8)]
  have r2: "r2 = None" using st(1) assms(10) by simp
  have cells2: "cells (render so2) = (cells (render so1))((i, 0) \<mapsto> c)"
    using st(5) assms(10) lp1 by simp
  have lp2: "line_pos u2 ! nat i = 1" using st(2) assms(10) lp1 p(1,2) assms(1) by simp
  show ?thesis using r1 lp1 tx cells1 r2 cells2 lp2 by blast
qed

theorem newline_resets_column_witness:
  "update_char 0 [CHR 0x0D]
     (\<lparr>max_lines = 2, cur_line = 2, cur_col = 0, line_pos = [1, 0]\<rparr>,
      [CUD 2, CUU 2, Text ''a'', CUD 2, CUB 1]) =
     (None, \<lparr>max_lines = 2, cur_line = 2, cur_col = 0, line_pos = [0, 0]\<rparr>,
      [CUD 2, CUU 2, Text ''a'', CUD 2, CUB 1]) \<and>
   update_char 0 ''z''
     (\<lparr>max_lines = 2, cur_line = 2, cur_col = 0, line_pos = [0, 0]\<rparr>,
      [CUD 2, CUU 2, Text ''a'', CUD 2, CUB 1]) =
     (None, \<lparr>max_lines = 2, cur_line = 2, cur_col = 0, line_pos = [1, 0]\<rparr>,
      [CUD 2, CUU 2, Text ''a'', CUD 2, CUB 1, CUU 2, Text ''z'', CUD 2, CUB 1]) \<and>
   cells (render [CUD 2, CUU 2, Text ''a'', CUD 2, CUB 1, CUU 2, Text ''z'', CUD 2, CUB 1]) =
     (cells (render [CUD 2, CUU 2, Text ''a'', CUD 2, CUB 1]))((0, 0) \<mapsto> CHR ''z'')"
proof -
  let ?u = "\<lparr>max_lines = 2, cur_line = 2, cur_col = 0, line_pos = [1, 0]\<rparr>"
  let ?u1 = "\<lparr>max_lines = 2, cur_line = 2, cur_col = 0, line_pos = [0, 0]\<rparr>"
  let ?so = "[CUD 2, CUU 2, Text ''a'', CUD 2, CUB 1]"
  let ?so2 = "[CUD 2, CUU 2, Text ''a'', CUD 2, CUB 1, CUU 2, Text ''z'', CUD 2, CUB 1]"
  have h: "(0::int) \<le> 0" "0 < max_lines ?u" "length (line_pos ?u) = nat (max_lines ?u)"
    "row (render ?so) = cur_line ?u" "col (render ?so) = cur_col ?u"
    "[CHR 0x0D] = [CHR 0x0A] \<or> [CHR 0x0D] = [CHR 0x0D]"
    "CHR ''z'' \<noteq> CHR 0x0A" "CHR ''z'' \<noteq> CHR 0x0D"
    by (simp_all add: render_def blank_def put_char_def)
  have s1: "update_char 0 [CHR 0x0D] (?u, ?so) = (None, ?u1, ?so)"
    by (simp add: canvas_defs Let_def)
  have s2: "update_char 0 ''z'' (?u1, ?so) = (None, ?u, ?so2)"
    by (simp add: canvas_defs Let_def)
  show ?thesis
    using s1 s2 newline_resets_column [OF h s1 s2] by blast
qed

subsection \<open>Characters written to one line\<close>

text \<open>
  Claim C6. On a canvas just constructed with \<open>n\<close> lines on a blank terminal, for a line
  \<open>i\<close> in \<open>[0, n)\<close> and characters \<open>cs\<close> without line feed and carriage return: the calls
  \<open>update_char(i, c)\<close> for the \<open>c\<close> of \<open>cs\<close> in order all return, \<open>line_pos[i]\<close> is then
  the number of characters, row \<open>i\<close> of the terminal shows \<open>cs\<close> from column \<open>0\<close> on, and
  the cells of row \<open>i\<close> after them are empty.
\<close>

theorem printable_chars_concatenate:
  assumes "0 \<le> i" and "i < n" and "CHR 0x0A \<notin> set cs" and "CHR 0x0D \<notin> set cs"
  shows "fst (update_chars (map (\<lambda>c. (i, [c])) cs) (UITool_init n [])) = None \<and>
         line_pos (fst (snd (update_chars (map (\<lambda>c. (i, [c])) cs) (UITool_init n [])))) ! nat i =
           int (length cs) \<and>
         shown (render (snd (snd (update_chars (map (\<lambda>c. (i, [c])) cs) (UITool_init n [])))))
           i (length cs) = map Some cs \<and>
         (\<forall>k. length cs \<le> k \<longrightarrow>
            cells (render (snd (snd (update_chars (map (\<lambda>c. (i, [c])) cs) (UITool_init n [])))))
              (i, int k) = None)"
proof -
  obtain u so where w: "UITool_init n [] = (u, so)" by (cases "UITool_init n []")
  have n: "0 \<le> n" using assms(1,2) by simp
  have u: "max_lines u = n" "cur_line u = n" "cur_col u = 0" "line_pos u = replicate (nat n) 0"
    using init_facts(1-4) [of n "[]"] w by simp_all
  have so: "row (render so) = n" "col (render so) = 0" "cells (render so) = (\<lambda>_. None)"
    using init_facts(5) [OF n] init_facts(6,7) [of n] w by simp_all
  have lp: "line_pos u ! nat i = 0" using u(4) assms(1,2) by simp
  have p: "i < max_lines u" "length (line_pos u) = nat (max_lines u)"
    "row (render so) = cur_line u" "col (render so) = cur_col u"
    using u so assms(2) by simp_all
  from update_chars_one_line [OF assms(1) p assms(3,4)] lp
  obtain u' so' where
    run: "update_chars (map (\<lambda>c. (i, [c])) cs) (u, so) = (None, u', so')" and
    lp': "line_pos u' ! nat i = int (length cs)" and
    new: "\<forall>k < length cs. cells (render so') (i, int k) = Some (cs ! k)" and
    old: "\<forall>r c. r \<noteq> i \<or> c < 0 \<or> int (length cs) \<le> c \<longrightarrow>
         cells (render so') (r, c) = cells (render so) (r, c)"
    by auto
  have sh: "shown (render so') i (length cs) = map Some cs"
    unfolding shown_def by (rule nth_equalityI) (simp_all add: new)
  have rest: "\<forall>k. length cs \<le> k \<longrightarrow> cells (render so') (i, int k) = None"
    using old so(3) by simp
  show ?thesis using w run lp' sh rest by simp
qed

theorem printable_chars_concatenate_witness:
  "fst (update_chars (map (\<lambda>c. (1, [c])) ''abc'') (UITool_init 2 [])) = None \<and>
   line_pos (fst (snd (update_chars (map (\<lambda>c. (1, [c])) ''abc'') (UITool_init 2 [])))) ! nat 1 =
     int (length ''abc'') \<and>
   shown (render (snd (snd (update_chars (map (\<lambda>c. (1, [c])) ''abc'') (UITool_init 2 [])))))
     1 (length ''abc'') = map Some ''abc'' \<and>
   cells (render (snd (snd (update_chars (map (\<lambda>c. (1, [c])) ''abc'') (UITool_init 2 [])))))
     (1, int 3) = None"
proof -
  have a: "(0::int) \<le> 1" "(1::int) < 2" "CHR 0x0A \<notin> set ''abc''" "CHR 0x0D \<notin> set ''abc''"
    by simp_all
  have k: "length ''abc'' \<le> 3" by simp
  from printable_chars_concatenate [OF a] k show ?thesis by blast
qed

subsection \<open>Leaving the \<open>with\<close> statement\<close>

lemma ui_tool_finally_eq: "ui_tool_finally so = so @ [ShowCursor, Text [CHR 0x0A]]"
  by (simp add: ui_tool_finally_def show_cursor_def)

lemma setup_TinyUI_1:
  "print_desc ''TinyUI'' (UITool_init 1 (hide_cursor [])) =
     (None, \<lparr>max_lines = 1, cur_line = 1, cur_col = 0, line_pos = [0]\<rparr>,
      [HideCursor, CUD 1, Text ''===== TinyUI ====='', CUB 18])"
  by (simp add: canvas_defs hide_cursor_def Let_def)

text \<open>
  Claim C3. When the banner has been printed and the body ends, normally or by raising
  any error, the \<open>with\<close> statement ends, and the standard output is then what the body
  left, followed by the line \<open>print(e)\<close> wrote if the body raised an \<open>e\<close> that
  \<open>except Exception\<close> catches, followed by the show-cursor sequence and a line feed as
  its last two items.
\<close>

theorem teardown_on_every_exit:
  assumes "print_desc desc (UITool_init n (hide_cursor so)) = (None, w)"
    and "body x w = Some (rb, x', u', sob)"
  shows "\<exists>r. ui_tool n desc body x so =
           Some (r, x',
             sob @ (case rb of None \<Rightarrow> []
                    | Some e \<Rightarrow> if is_Exception e then [Text (str e @ [CHR 0x0A])] else [])
                 @ [ShowCursor, Text [CHR 0x0A]])"
  using assms
  by (cases rb) (simp_all add: ui_tool_def ui_tool_finally_eq ui_tool_except_def)

theorem teardown_on_every_exit_witness:
  "\<exists>r. ui_tool 1 ''TinyUI'' (body_raise (BaseException ''KeyboardInterrupt'')) () [] =
     Some (r, (),
       [HideCursor, CUD 1, Text ''===== TinyUI ====='', CUB 18] @
       (case Some (BaseException ''KeyboardInterrupt'') of None \<Rightarrow> []
        | Some e \<Rightarrow> if is_Exception e then [Text (str e @ [CHR 0x0A])] else []) @
       [ShowCursor, Text [CHR 0x0A]])"
proof -
  have b: "body_raise (BaseException ''KeyboardInterrupt'') ()
            (\<lparr>max_lines = 1, cur_line = 1, cur_col = 0, line_pos = [0]\<rparr>,
             [HideCursor, CUD 1, Text ''===== TinyUI ====='', CUB 18]) =
           Some (Some (BaseException ''KeyboardInterrupt''), (),
             \<lparr>max_lines = 1, cur_line = 1, cur_col = 0, line_pos = [0]\<rparr>,
             [HideCursor, CUD 1, Text ''===== TinyUI ====='', CUB 18])"
    by (simp add: body_raise_def)
  show ?thesis
    by (rule teardown_on_every_exit
        [where body = "body_raise (BaseException ''KeyboardInterrupt'')" and x = "()",
         OF setup_TinyUI_1 b])
qed

text \<open>
  Claim C4 says that every error raised in the body is propagated to the caller after
  the teardown. An error derived from \<open>Exception\<close> is not: the generator catches it,
  prints it and ends, so the \<open>with\<close> statement ends normally.
\<close>

theorem swallowed_error_counterexample:
  "ui_tool 1 ''TinyUI'' (body_raise (Exception ''boom'')) () [] =
     Some (None, (),
       [HideCursor, CUD 1, Text ''===== TinyUI ====='', CUB 18,
        Text [CHR ''b'', CHR ''o'', CHR ''o'', CHR ''m'', CHR 0x0A], ShowCursor, Text [CHR 0x0A]])"
  by (simp add: ui_tool_def ui_tool_finally_eq ui_tool_except_def body_raise_def hide_cursor_def
      canvas_defs Let_def)

text \<open>
  Claim C4, amended. When the body raises \<open>e\<close>, the teardown (show-cursor sequence and
  line feed) is written in every case. If \<open>e\<close> is not derived from \<open>Exception\<close>, the
  teardown comes right after the output of the body and the \<open>with\<close> statement then raises
  that same \<open>e\<close>. If \<open>e\<close> is derived from \<open>Exception\<close>, \<open>str(e)\<close> and a line feed are
  written before the teardown and the \<open>with\<close> statement ends normally.
\<close>

theorem errors_after_teardown:
  assumes "print_desc desc (UITool_init n (hide_cursor so)) = (None, w)"
    and "body x w = Some (Some e, x', u', sob)"
  shows "ui_tool n desc body x so =
           Some (if is_Exception e then None else Some e, x',
             (if is_Exception e then sob @ [Text (str e @ [CHR 0x0A])] else sob)
               @ [ShowCursor, Text [CHR 0x0A]])"
  using assms
  by (simp add: ui_tool_def ui_tool_finally_eq ui_tool_except_def)

theorem errors_after_teardown_witness:
  "ui_tool 1 ''TinyUI'' (body_raise (BaseException ''SystemExit'')) () [] =
     Some (if is_Exception (BaseException ''SystemExit'') then None
           else Some (BaseException ''SystemExit''), (),
       (if is_Exception (BaseException ''SystemExit'')
        then [HideCursor, CUD 1, Text ''===== TinyUI ====='', CUB 18] @
             [Text (str (BaseException ''SystemExit'') @ [CHR 0x0A])]
        else [HideCursor, CUD 1, Text ''===== TinyUI ====='', CUB 18]) @
       [ShowCursor, Text [CHR 0x0A]])"
proof -
  have b: "body_raise (BaseException ''SystemExit'') ()
            (\<lparr>max_lines = 1, cur_line = 1, cur_col = 0, line_pos = [0]\<rparr>,
             [HideCursor, CUD 1, Text ''===== TinyUI ====='', CUB 18]) =
           Some (Some (BaseException ''SystemExit''), (),
             \<lparr>max_lines = 1, cur_line = 1, cur_col = 0, line_pos = [0]\<rparr>,
             [HideCursor, CUD 1, Text ''===== TinyUI ====='', CUB 18])"
    by (simp add: body_raise_def)
  show ?thesis
    by (rule errors_after_teardown
        [where body = "body_raise (BaseException ''SystemExit'')" and x = "()",
         OF setup_TinyUI_1 b])
qed

subsection \<open>The polling loop\<close>

lemma while_done:
  "list_all (\<lambda>p. poll p \<noteq> None) ps \<Longrightarrow> ui_thread_while ps w = Some (None, ps, w)"
  by (subst ui_thread_while.simps) simp

lemma while_step:
  "\<not> list_all (\<lambda>p. poll p \<noteq> None) ps \<Longrightarrow> ui_thread_for 0 ps w = (None, ps', w') \<Longrightarrow>
   ui_thread_while ps w = ui_thread_while ps' w'"
  by (subst ui_thread_while.simps) simp

lemma print_desc_TinyUI:
  "fst (print_desc ''TinyUI'' w) = None"
  by (simp add: print_desc_def update_line_def)

text \<open>
  Claim C8. When every handle answers \<open>poll()\<close> with an exit status at the start of an
  iteration, the loop returns there: nothing is read (the handles, with whatever is
  unread in their pipes, are as they were) and nothing is written. Run on such handles,
  \<open>_ui_thread\<close> is the \<open>with\<close> statement with the body \<open>pass\<close>.
\<close>

theorem no_final_drain:
  assumes "list_all (\<lambda>p. poll p \<noteq> None) ps"
  shows "ui_thread_while ps w = Some (None, ps, w) \<and>
         ui_thread ps so = ui_tool (int (length ps)) ''TinyUI'' body_pass ps so"
proof -
  have a: "ui_thread_while ps w = Some (None, ps, w)" for w
    using assms by (rule while_done)
  obtain r w0 where s: "print_desc ''TinyUI'' (UITool_init (int (length ps)) (hide_cursor so)) = (r, w0)"
    by (cases "print_desc ''TinyUI'' (UITool_init (int (length ps)) (hide_cursor so))")
  have r: "r = None" using print_desc_TinyUI [of "UITool_init (int (length ps)) (hide_cursor so)"] s by simp
  have "ui_thread ps so = ui_tool (int (length ps)) ''TinyUI'' body_pass ps so"
    using s r a [of w0] by (simp add: ui_thread_def ui_tool_def body_pass_def)
  then show ?thesis using a by simp
qed

theorem no_final_drain_witness:
  "ui_thread_while [exited_leaving ''ab''] (UITool_init 1 []) =
     Some (None, [exited_leaving ''ab''], UITool_init 1 []) \<and>
   ui_thread [exited_leaving ''ab''] [] =
     ui_tool (int (length [exited_leaving ''ab''])) ''TinyUI'' body_pass [exited_leaving ''ab''] []"
proof -
  have a: "list_all (\<lambda>p. poll p \<noteq> None) [exited_leaving ''ab'']"
    by (simp add: poll_def exited_leaving_def)
  show ?thesis by (rule no_final_drain [OF a])
qed

subsection \<open>Three processes\<close>

text \<open>
  The run of \<open>_ui_thread\<close> on three handles whose processes write \<open>ab\<close>, \<open>xy\<close> and \<open>12\<close>
  and then exit, on a blank terminal, step by step: the banner, two rounds of the \<open>for\<close>
  statement, and the \<open>while\<close> statement around them.
\<close>

lemma setup_TinyUI_3:
  "print_desc ''TinyUI'' (UITool_init 3 (hide_cursor [])) =
     (None, \<lparr>max_lines = 3, cur_line = 3, cur_col = 0, line_pos = [0, 0, 0]\<rparr>,
      [HideCursor, CUD 3, Text ''===== TinyUI ====='', CUB 18])"
  by (simp add: canvas_defs hide_cursor_def Let_def eval_nat_numeral)

lemma round_1:
  "ui_thread_for 0 [emits ''ab'', emits ''xy'', emits ''12'']
     (\<lparr>max_lines = 3, cur_line = 3, cur_col = 0, line_pos = [0, 0, 0]\<rparr>,
      [HideCursor, CUD 3, Text ''===== TinyUI ====='', CUB 18]) =
   (None, [emits ''b'', emits ''y'', emits ''2''],
    \<lparr>max_lines = 3, cur_line = 3, cur_col = 0, line_pos = [1, 1, 1]\<rparr>,
    [HideCursor, CUD 3, Text ''===== TinyUI ====='', CUB 18,
     CUU 3, Text ''a'', CUD 3, CUB 1, CUU 2, Text ''x'', CUD 2, CUB 1,
     CUU 1, Text ''1'', CUD 1, CUB 1])"
  by (simp add: emits_def read1_def canvas_defs Let_def eval_nat_numeral)

lemma round_2:
  "ui_thread_for 0 [emits ''b'', emits ''y'', emits ''2'']
     (\<lparr>max_lines = 3, cur_line = 3, cur_col = 0, line_pos = [1, 1, 1]\<rparr>,
      [HideCursor, CUD 3, Text ''===== TinyUI ====='', CUB 18,
       CUU 3, Text ''a'', CUD 3, CUB 1, CUU 2, Text ''x'', CUD 2, CUB 1,
       CUU 1, Text ''1'', CUD 1, CUB 1]) =
   (None, [emits [], emits [], emits []],
    \<lparr>max_lines = 3, cur_line = 3, cur_col = 0, line_pos = [2, 2, 2]\<rparr>,
    [HideCursor, CUD 3, Text ''===== TinyUI ====='', CUB 18,
     CUU 3, Text ''a'', CUD 3, CUB 1, CUU 2, Text ''x'', CUD 2, CUB 1,
     CUU 1, Text ''1'', CUD 1, CUB 1,
     CUU 3, CUF 1, Text ''b'', CUD 3, CUB 2, CUU 2, CUF 1, Text ''y'', CUD 2, CUB 2,
     CUU 1, CUF 1, Text ''2'', CUD 1, CUB 2])"
  by (simp add: emits_def read1_def canvas_defs Let_def eval_nat_numeral)

lemma loop_3:
  "ui_thread_while [emits ''ab'', emits ''xy'', emits ''12'']
     (\<lparr>max_lines = 3, cur_line = 3, cur_col = 0, line_pos = [0, 0, 0]\<rparr>,
      [HideCursor, CUD 3, Text ''===== TinyUI ====='', CUB 18]) =
   Some (None, [emits [], emits [], emits []],
    \<lparr>max_lines = 3, cur_line = 3, cur_col = 0, line_pos = [2, 2, 2]\<rparr>,
    [HideCursor, CUD 3, Text ''===== TinyUI ====='', CUB 18,
     CUU 3, Text ''a'', CUD 3, CUB 1, CUU 2, Text ''x'', CUD 2, CUB 1,
     CUU 1, Text ''1'', CUD 1, CUB 1,
     CUU 3, CUF 1, Text ''b'', CUD 3, CUB 2, CUU 2, CUF 1, Text ''y'', CUD 2, CUB 2,
     CUU 1, CUF 1, Text ''2'', CUD 1, CUB 2])"
proof -
  have n1: "\<not> list_all (\<lambda>p. poll p \<noteq> None) [emits ''ab'', emits ''xy'', emits ''12'']"
    by (simp add: poll_def emits_def)
  have n2: "\<not> list_all (\<lambda>p. poll p \<noteq> None) [emits ''b'', emits ''y'', emits ''2'']"
    by (simp add: poll_def emits_def)
  have d: "list_all (\<lambda>p. poll p \<noteq> None) [emits [], emits [], emits []]"
    by (simp add: poll_def emits_def)
  show ?thesis
    by (simp only: while_step [OF n1 round_1] while_step [OF n2 round_2] while_done [OF d])
qed

lemma ui_thread_3:
  "ui_thread [emits ''ab'', emits ''xy'', emits ''12''] [] =
   Some (None, [emits [], emits [], emits []],
    [HideCursor, CUD 3, Text ''===== TinyUI ====='', CUB 18,
     CUU 3, Text ''a'', CUD 3, CUB 1, CUU 2, Text ''x'', CUD 2, CUB 1,
     CUU 1, Text ''1'', CUD 1, CUB 1,
     CUU 3, CUF 1, Text ''b'', CUD 3, CUB 2, CUU 2, CUF 1, Text ''y'', CUD 2, CUB 2,
     CUU 1, CUF 1, Text ''2'', CUD 1, CUB 2, ShowCursor, Text [CHR 0x0A]])"
  by (simp add: ui_thread_def ui_tool_def setup_TinyUI_3 loop_3 ui_tool_finally_eq)

lemma screen_3:
  "shown (render
    [HideCursor, CUD 3, Text ''===== TinyUI ====='', CUB 18,
     CUU 3, Text ''a'', CUD 3, CUB 1, CUU 2, Text ''x'', CUD 2, CUB 1,
     CUU 1, Text ''1'', CUD 1, CUB 1,
     CUU 3, CUF 1, Text ''b'', CUD 3, CUB 2, CUU 2, CUF 1, Text ''y'', CUD 2, CUB 2,
     CUU 1, CUF 1, Text ''2'', CUD 1, CUB 2, ShowCursor, Text [CHR 0x0A]]) 0 3 =
     [Some CHR ''a'', Some CHR ''b'', None] \<and>
   shown (render
    [HideCursor, CUD 3, Text ''===== TinyUI ====='', CUB 18,
     CUU 3, Text ''a'', CUD 3, CUB 1, CUU 2, Text ''x'', CUD 2, CUB 1,
     CUU 1, Text ''1'', CUD 1, CUB 1,
     CUU 3, CUF 1, Text ''b'', CUD 3, CUB 2, CUU 2, CUF 1, Text ''y'', CUD 2, CUB 2,
     CUU 1, CUF 1, Text ''2'', CUD 1, CUB 2, ShowCursor, Text [CHR 0x0A]]) 1 3 =
     [Some CHR ''x'', Some CHR ''y'', None] \<and>
   shown (render
    [HideCursor, CUD 3, Text ''===== TinyUI ====='', CUB 18,
     CUU 3, Text ''a'', CUD 3, CUB 1, CUU 2, Text ''x'', CUD 2, CUB 1,
     CUU 1, Text ''1'', CUD 1, CUB 1,
     CUU 3, CUF 1, Text ''b'', CUD 3, CUB 2, CUU 2, CUF 1, Text ''y'', CUD 2, CUB 2,
     CUU 1, CUF 1, Text ''2'', CUD 1, CUB 2, ShowCursor, Text [CHR 0x0A]]) 2 3 =
     [Some CHR ''1'', Some CHR ''2'', None]"
  by (simp add: shown_def render_def blank_def put_char_def eval_nat_numeral)

text \<open>
  Claim C2. Run on three handles whose processes write \<open>ab\<close>, \<open>xy\<close> and \<open>12\<close> and then
  exit, \<open>_ui_thread\<close> returns, without an error and with the three pipes read to their
  end; rows \<open>0\<close>, \<open>1\<close> and \<open>2\<close> of the terminal then show \<open>ab\<close>, \<open>xy\<close> and \<open>12\<close> and
  nothing after them; and the loop inside leaves \<open>line_pos = [2, 2, 2]\<close>.
\<close>

theorem three_processes_rendered:
  "(case ui_thread [emits ''ab'', emits ''xy'', emits ''12''] [] of
      None \<Rightarrow> False
    | Some (r, ps, so) \<Rightarrow>
        r = None \<and> ps = [emits [], emits [], emits []] \<and>
        shown (render so) 0 3 = [Some CHR ''a'', Some CHR ''b'', None] \<and>
        shown (render so) 1 3 = [Some CHR ''x'', Some CHR ''y'', None] \<and>
        shown (render so) 2 3 = [Some CHR ''1'', Some CHR ''2'', None]) \<and>
   (case ui_thread_while [emits ''ab'', emits ''xy'', emits ''12'']
           (snd (print_desc ''TinyUI'' (UITool_init 3 (hide_cursor [])))) of
      None \<Rightarrow> False
    | Some (r, ps, u, so) \<Rightarrow> r = None \<and> line_pos u = [2, 2, 2])"
  by (simp only: ui_thread_3 setup_TinyUI_3 loop_3 snd_conv option.case prod.case
      UITool.simps screen_3 simp_thms)

end
